theory Spec2Isabelle
  imports Main
begin

section \<open>Values of the argument bag\<close>

text \<open>
  The dispatcher \<open>executeTool(name, args)\<close> of the git server receives a tool name and a bag
  of untyped JSON values. A value is modelled by its JavaScript kind. Strings and arrays
  carry their contents. Numbers and objects carry what the dispatcher can observe of them:
  \<^item> a number: whether it is falsy (\<open>0\<close>, \<open>-0\<close>, \<open>NaN\<close>) and its rendering by \<open>String()\<close>;
  \<^item> an object: whether \<open>obj.length > 0\<close> holds, and its rendering by \<open>String()\<close>, which is
    \<open>None\<close> when the conversion throws a TypeError (an own \<open>toString\<close> property that is
    not callable).
  Every JSON value is some \<open>jsval\<close>, so a statement about all \<open>jsval\<close> covers all of them.

  A string is the list of its UTF-8 bytes. All patterns the code searches for are ASCII,
  so searching bytes and searching UTF-16 code units agree; \<open>trim\<close> knows the encodings of
  the white space code points beyond ASCII.
\<close>

datatype jsval =
    JUndefined
  | JNull
  | JBool bool
  | JNum (falsy: bool) (rendering: string)
  | JStr string
  | JArr "jsval list"
  | JObj (length_positive: bool) (primitive: "string option")

text \<open>\<open>!v\<close> is \<open>\<not> truthy v\<close>.\<close>

fun truthy :: "jsval \<Rightarrow> bool" where
  "truthy JUndefined = False"
| "truthy JNull = False"
| "truthy (JBool b) = b"
| "truthy (JNum z r) = (\<not> z)"
| "truthy (JStr s) = (s \<noteq> [])"
| "truthy (JArr xs) = True"
| "truthy (JObj l p) = True"

fun typeof :: "jsval \<Rightarrow> string" where
  "typeof JUndefined = ''undefined''"
| "typeof JNull = ''object''"
| "typeof (JBool b) = ''boolean''"
| "typeof (JNum z r) = ''number''"
| "typeof (JStr s) = ''string''"
| "typeof (JArr xs) = ''object''"
| "typeof (JObj l p) = ''object''"

text \<open>
  \<open>String(v)\<close>, as a template literal applies it; \<open>None\<close> is the TypeError of an object that
  cannot be converted. An array joins its elements with a comma, \<open>null\<close> and \<open>undefined\<close>
  elements rendering as the empty string.
\<close>

fun js_String :: "jsval \<Rightarrow> string option"
  and js_join :: "jsval list \<Rightarrow> string option" where
  "js_String JUndefined = Some ''undefined''"
| "js_String JNull = Some ''null''"
| "js_String (JBool b) = Some (if b then ''true'' else ''false'')"
| "js_String (JNum z r) = Some r"
| "js_String (JStr s) = Some s"
| "js_String (JArr xs) = js_join xs"
| "js_String (JObj l p) = p"
| "js_join [] = Some []"
| "js_join (x # xs) =
     (case (if x = JUndefined \<or> x = JNull then Some [] else js_String x) of
        None \<Rightarrow> None
      | Some a \<Rightarrow>
          (if xs = [] then Some a
           else (case js_join xs of None \<Rightarrow> None | Some b \<Rightarrow> Some (a @ '','' @ b))))"

section \<open>String operations\<close>

definition backslash :: char where
  "backslash = CHR 0x5C"

text \<open>\<open>s.startsWith(p)\<close>\<close>

fun startsWith :: "string \<Rightarrow> string \<Rightarrow> bool" where
  "startsWith s [] = True"
| "startsWith [] (p # ps) = False"
| "startsWith (c # cs) (p # ps) = (c = p \<and> startsWith cs ps)"

text \<open>\<open>s.includes(p)\<close>\<close>

fun js_includes :: "string \<Rightarrow> string \<Rightarrow> bool" where
  "js_includes [] p = (p = [])"
| "js_includes (c # cs) p = (startsWith (c # cs) p \<or> js_includes cs p)"

text \<open>The character class \<open>[<>|&;$`]\<close> of the regular expressions, and a search for it.\<close>

definition dangerous :: "char list" where
  "dangerous = ''<>|&;$`''"

definition has_char :: "char list \<Rightarrow> string \<Rightarrow> bool" where
  "has_char cls s = list_ex (\<lambda>c. c \<in> set cls) s"

text \<open>
  The encodings of the code points \<open>trim\<close> removes (WhiteSpace and LineTerminator of
  ECMAScript): U+0009 to U+000D, U+0020, U+00A0, U+1680, U+2000 to U+200A, U+2028, U+2029,
  U+202F, U+205F, U+3000, U+FEFF.
\<close>

definition js_whitespace :: "string list" where
  "js_whitespace =
     [[CHR 0x09], [CHR 0x0A], [CHR 0x0B], [CHR 0x0C], [CHR 0x0D], [CHR 0x20],
      [CHR 0xC2, CHR 0xA0],
      [CHR 0xE1, CHR 0x9A, CHR 0x80],
      [CHR 0xE2, CHR 0x80, CHR 0x80], [CHR 0xE2, CHR 0x80, CHR 0x81],
      [CHR 0xE2, CHR 0x80, CHR 0x82], [CHR 0xE2, CHR 0x80, CHR 0x83],
      [CHR 0xE2, CHR 0x80, CHR 0x84], [CHR 0xE2, CHR 0x80, CHR 0x85],
      [CHR 0xE2, CHR 0x80, CHR 0x86], [CHR 0xE2, CHR 0x80, CHR 0x87],
      [CHR 0xE2, CHR 0x80, CHR 0x88], [CHR 0xE2, CHR 0x80, CHR 0x89],
      [CHR 0xE2, CHR 0x80, CHR 0x8A],
      [CHR 0xE2, CHR 0x80, CHR 0xA8], [CHR 0xE2, CHR 0x80, CHR 0xA9],
      [CHR 0xE2, CHR 0x80, CHR 0xAF],
      [CHR 0xE2, CHR 0x81, CHR 0x9F],
      [CHR 0xE3, CHR 0x80, CHR 0x80],
      [CHR 0xEF, CHR 0xBB, CHR 0xBF]]"

text \<open>
  Removing, from the front, every leading occurrence of one of the given sequences. Each
  round removes at least one byte, which is the termination argument.
\<close>

function strip :: "string list \<Rightarrow> string \<Rightarrow> string" where
  "strip ws s =
     (case find (\<lambda>w. w \<noteq> [] \<and> startsWith s w) ws of
        None \<Rightarrow> s
      | Some w \<Rightarrow> strip ws (drop (length w) s))"
  by pat_completeness auto

termination strip
proof (relation "measure (\<lambda>(ws, s). length s)")
  show "wf (measure (\<lambda>(ws, s). length s))" by simp
next
  fix ws :: "string list" and s w :: string
  assume "find (\<lambda>w. w \<noteq> [] \<and> startsWith s w) ws = Some w"
  then have "w \<noteq> []" and "startsWith s w"
    by (auto simp: find_Some_iff)
  then have "s \<noteq> []"
    by (cases s; cases w) simp_all
  with \<open>w \<noteq> []\<close> show "((ws, drop (length w) s), (ws, s)) \<in> measure (\<lambda>(ws, s). length s)"
    by simp
qed

declare strip.simps [simp del]

definition trimStart :: "string \<Rightarrow> string" where
  "trimStart s = strip js_whitespace s"

definition trimEnd :: "string \<Rightarrow> string" where
  "trimEnd s = rev (strip (map rev js_whitespace) (rev s))"

definition trim :: "string \<Rightarrow> string" where
  "trim s = trimEnd (trimStart s)"

text \<open>\<open>s.split(c)\<close> for a one-character separator: never an empty array.\<close>

fun js_split :: "string \<Rightarrow> char \<Rightarrow> string list" where
  "js_split [] c = [[]]"
| "js_split (x # xs) c =
     (if x = c then [] # js_split xs c
      else (case js_split xs c of
              [] \<Rightarrow> [[x]]
            | seg # rest \<Rightarrow> (x # seg) # rest))"

text \<open>\<open>xs.pop()\<close>: the last element, \<open>undefined\<close> (here \<open>None\<close>) on an empty array.\<close>

definition pop :: "'a list \<Rightarrow> 'a option" where
  "pop xs = (if xs = [] then None else Some (last xs))"

section \<open>Thrown values\<close>

text \<open>
  What a \<open>throw\<close> or a rejected promise carries: an \<open>Error\<close> instance with its message, or
  any other value, of which the handlers only take \<open>String(error)\<close>.
\<close>

datatype thrown = JsError string | NonError string

type_synonym 'a result = "thrown + 'a"

section \<open>Validators\<close>

text \<open>
  The three exported validators. Each tests \<open>!x || typeof x !== 'string'\<close> first and throws
  an \<open>Error\<close>; the checks that follow are, in the order of the source,
  \<^item> \<open>validatePath\<close>: \<open>path.includes('..') || path.startsWith('/') || path.includes('\\')\<close>,
    then \<open>path.match(/^\/|[<>|&;$`]/)\<close>, then \<open>return path\<close>;
  \<^item> \<open>validateBranchName\<close>: \<open>branchName.match(/[<>|&;$`\\]/) || branchName.includes('..')\<close>,
    then \<open>branchName.trim().length === 0\<close>, then \<open>return branchName.trim()\<close>;
  \<^item> \<open>validateCommitMessage\<close>: \<open>message.match(/[<>|&;$`\\]/)\<close>, then \<open>return message\<close>.
  In a regular expression and in a string literal of the source, \<open>\\\<close> is one backslash.
\<close>

definition validatePath :: "jsval \<Rightarrow> string result" where
  "validatePath path =
     (if \<not> truthy path \<or> typeof path \<noteq> ''string''
      then Inl (JsError ''Path must be a non-empty string'')
      else (case path of
              JStr s \<Rightarrow>
                if js_includes s ''..'' \<or> startsWith s ''/'' \<or> js_includes s [backslash]
                then Inl (JsError ''Invalid path: path traversal not allowed'')
                else if startsWith s ''/'' \<or> has_char dangerous s
                then Inl (JsError ''Invalid path: dangerous characters not allowed'')
                else Inr s
            | _ \<Rightarrow> Inl (JsError ''Path must be a non-empty string'')))"

definition validateBranchName :: "jsval \<Rightarrow> string result" where
  "validateBranchName branchName =
     (if \<not> truthy branchName \<or> typeof branchName \<noteq> ''string''
      then Inl (JsError ''Branch name must be a non-empty string'')
      else (case branchName of
              JStr s \<Rightarrow>
                if has_char (dangerous @ [backslash]) s \<or> js_includes s ''..''
                then Inl (JsError ''Invalid branch name: dangerous characters not allowed'')
                else if length (trim s) = 0
                then Inl (JsError ''Branch name cannot be empty or whitespace-only'')
                else Inr (trim s)
            | _ \<Rightarrow> Inl (JsError ''Branch name must be a non-empty string'')))"

definition validateCommitMessage :: "jsval \<Rightarrow> string result" where
  "validateCommitMessage message =
     (if \<not> truthy message \<or> typeof message \<noteq> ''string''
      then Inl (JsError ''Commit message must be a non-empty string'')
      else (case message of
              JStr s \<Rightarrow>
                if has_char (dangerous @ [backslash]) s
                then Inl (JsError ''Invalid commit message: dangerous characters not allowed'')
                else Inr s
            | _ \<Rightarrow> Inl (JsError ''Commit message must be a non-empty string'')))"

section \<open>The repository handle and its primitives\<close>

text \<open>
  The calls \<open>executeTool\<close> makes on the handle \<open>git\<close> that \<open>simpleGit(REPO_PATH)\<close> returns, with
  their arguments as passed. \<open>git.add\<close> receives either the array of validated files or the
  string \<open>'.'\<close>; \<open>git.push\<close> and \<open>git.pull\<close> receive either no argument or the raw
  \<open>remote\<close> and \<open>branch\<close> values.
\<close>

datatype pathspec = Files "string list" | Path string

datatype git_call =
    Status
  | CheckoutBranch string string
  | CheckoutLocalBranch string
  | Checkout string
  | Branch
  | Merge "string list"
  | Raw "string list"
  | Add pathspec
  | Commit string
  | Push "(jsval \<times> jsval) option"
  | Pull "(jsval \<times> jsval) option"

text \<open>
  The version-control engine is outside the program. It is a parameter: a primitive, run on
  a repository state \<open>'s\<close>, rejects with a thrown value or resolves, and leaves a new state.
  Of a resolved value the dispatcher uses one text: \<open>JSON.stringify(value, null, 2)\<close> for
  \<open>status\<close> and \<open>branch\<close>, the string itself for \<open>raw\<close>, the rendering of \<open>result.commit\<close>
  for \<open>commit\<close>; the others are ignored. \<open>simpleGit\<close> gives the message of the Error the
  constructor throws on a root, \<open>None\<close> when it returns a handle.
\<close>

record 's engine =
  REPO_PATH :: string
  simpleGit :: "string \<Rightarrow> string option"
  run :: "git_call \<Rightarrow> 's \<Rightarrow> string result \<times> 's"

text \<open>The repository state together with the log of the primitives invoked so far.\<close>

record 's world =
  repo :: 's
  calls :: "git_call list"

type_synonym ('a, 's) action = "'s world \<Rightarrow> 'a result \<times> 's world"

text \<open>Sequencing: a throw (or a rejected \<open>await\<close>) skips the rest of the \<open>try\<close> block.\<close>

definition and_then :: "('a, 's) action \<Rightarrow> ('a \<Rightarrow> ('b, 's) action) \<Rightarrow> ('b, 's) action" where
  "and_then m f w = (case m w of (Inl e, w') \<Rightarrow> (Inl e, w') | (Inr a, w') \<Rightarrow> f a w')"

text \<open>A synchronous step: it touches nothing, and may throw.\<close>

definition sync :: "'a result \<Rightarrow> ('a, 's) action" where
  "sync r w = (r, w)"

text \<open>\<open>await git.c(...)\<close>\<close>

definition await :: "'s engine \<Rightarrow> git_call \<Rightarrow> (string, 's) action" where
  "await E c w =
     (case run E c (repo w) of
        (r, s') \<Rightarrow> (r, \<lparr>repo = s', calls = calls w @ [c]\<rparr>))"

definition createGitInstance :: "'s engine \<Rightarrow> unit result" where
  "createGitInstance E =
     (case simpleGit E (REPO_PATH E) of
        None \<Rightarrow> Inr ()
      | Some m \<Rightarrow>
          Inl (JsError (''Failed to initialize git repository at '' @ REPO_PATH E @ '': '' @ m)))"

section \<open>Invocation results\<close>

record content_item =
  c_type :: string
  c_text :: string

text \<open>\<open>isError\<close> is absent from a success; absent reads as \<open>False\<close>.\<close>

record invocation_result =
  content :: "content_item list"
  isError :: bool

definition success :: "string \<Rightarrow> invocation_result" where
  "success t = \<lparr>content = [\<lparr>c_type = ''text'', c_text = t\<rparr>], isError = False\<rparr>"

text \<open>\<open>error instanceof Error ? error.message : String(error)\<close>\<close>

fun error_text :: "thrown \<Rightarrow> string" where
  "error_text (JsError m) = m"
| "error_text (NonError r) = r"

definition failure :: "string \<Rightarrow> thrown \<Rightarrow> invocation_result" where
  "failure action e =
     \<lparr>content = [\<lparr>c_type = ''text'', c_text = action @ error_text e\<rparr>], isError = True\<rparr>"

text \<open>\<open>try { body } catch (error) { return failure }\<close>\<close>

definition try_catch ::
  "string \<Rightarrow> (invocation_result, 's) action \<Rightarrow> (invocation_result, 's) action" where
  "try_catch action body w =
     (case body w of
        (Inl e, w') \<Rightarrow> (Inr (failure action e), w')
      | (Inr r, w') \<Rightarrow> (Inr r, w'))"

section \<open>The dispatcher\<close>

text \<open>The argument bag: a property that is absent reads as \<open>undefined\<close>.\<close>

type_synonym args = "string \<Rightarrow> jsval"

text \<open>\<open>v ? validate(v) : undefined\<close>\<close>

definition when_truthy :: "(jsval \<Rightarrow> string result) \<Rightarrow> jsval \<Rightarrow> string option result" where
  "when_truthy validate v =
     (if truthy v
      then (case validate v of Inl e \<Rightarrow> Inl e | Inr s \<Rightarrow> Inr (Some s))
      else Inr None)"

text \<open>
  The truthiness test of a value that is \<open>undefined\<close> or a string, and \<open>a || b\<close> for such an
  \<open>a\<close>.
\<close>

definition if_set :: "string option \<Rightarrow> string option" where
  "if_set v = (case v of None \<Rightarrow> None | Some s \<Rightarrow> if s \<noteq> [] then Some s else None)"

definition or_str :: "string option \<Rightarrow> string \<Rightarrow> string" where
  "or_str a b = (case if_set a of Some s \<Rightarrow> s | None \<Rightarrow> b)"

text \<open>\<open>${v}\<close> in a template literal.\<close>

definition template :: "jsval \<Rightarrow> string result" where
  "template v =
     (case js_String v of
        None \<Rightarrow> Inl (JsError ''Cannot convert object to primitive value'')
      | Some s \<Rightarrow> Inr s)"

text \<open>A string between single quotes, as the messages show names.\<close>

definition quoted :: "string \<Rightarrow> string" where
  "quoted s = [CHR 0x27] @ s @ [CHR 0x27]"

text \<open>
  Every case of the switch in \<open>executeTool\<close> is
  \<open>try { const git = createGitInstance(); ... return {content: [{type: "text", text}]} }\<close>
  \<open>catch (error) { return {content: [...], isError: true} }\<close>.
  The body of each \<open>try\<close> block is one definition below, statement by statement, with the
  names of the source's constants; the \<open>catch\<close> is added in \<open>executeTool\<close>.
\<close>

definition git_status :: "'s engine \<Rightarrow> (invocation_result, 's) action" where
  "git_status E =
     and_then (sync (createGitInstance E)) (\<lambda>git.
     and_then (await E Status) (\<lambda>status.
     sync (Inr (success status))))"

definition create_branch :: "'s engine \<Rightarrow> args \<Rightarrow> (invocation_result, 's) action" where
  "create_branch E args =
     and_then (sync (createGitInstance E)) (\<lambda>git.
     and_then (sync (validateBranchName (args ''branchName''))) (\<lambda>validatedBranchName.
     and_then (sync (when_truthy validateBranchName (args ''fromBranch''))) (\<lambda>validatedFromBranch.
     and_then
       (case if_set validatedFromBranch of
          Some b \<Rightarrow> await E (CheckoutBranch validatedBranchName b)
        | None \<Rightarrow> await E (CheckoutLocalBranch validatedBranchName)) (\<lambda>r.
     sync (Inr (success
       (''Branch '' @ quoted validatedBranchName @ '' created successfully'' @
        (case if_set validatedFromBranch of
           Some b \<Rightarrow> '' from '' @ quoted b
         | None \<Rightarrow> []))))))))"

definition switch_branch :: "'s engine \<Rightarrow> args \<Rightarrow> (invocation_result, 's) action" where
  "switch_branch E args =
     and_then (sync (createGitInstance E)) (\<lambda>git.
     and_then (sync (validateBranchName (args ''branchName''))) (\<lambda>validatedBranchName.
     and_then (await E (Checkout validatedBranchName)) (\<lambda>r.
     sync (Inr (success (''Switched to branch '' @ quoted validatedBranchName))))))"

definition list_branches :: "'s engine \<Rightarrow> (invocation_result, 's) action" where
  "list_branches E =
     and_then (sync (createGitInstance E)) (\<lambda>git.
     and_then (await E Branch) (\<lambda>branches.
     sync (Inr (success branches))))"

definition create_worktree :: "'s engine \<Rightarrow> args \<Rightarrow> (invocation_result, 's) action" where
  "create_worktree E args =
     and_then (sync (createGitInstance E)) (\<lambda>git.
     and_then (sync (validatePath (args ''path''))) (\<lambda>validatedPath.
     and_then (sync (when_truthy validateBranchName (args ''branch''))) (\<lambda>validatedBranch.
     (let worktreeBranch =
            or_str validatedBranch
              (or_str (pop (js_split validatedPath (CHR ''/''))) ''worktree-branch'')
      in and_then
           (await E (Raw [''worktree'', ''add'', ''-b'', worktreeBranch, validatedPath])) (\<lambda>r.
         sync (Inr (success
           (''Worktree created at '' @ quoted validatedPath @
            '' on new branch '' @ quoted worktreeBranch))))))))"

definition list_worktrees :: "'s engine \<Rightarrow> (invocation_result, 's) action" where
  "list_worktrees E =
     and_then (sync (createGitInstance E)) (\<lambda>git.
     and_then (await E (Raw [''worktree'', ''list''])) (\<lambda>worktrees.
     sync (Inr (success worktrees))))"

definition merge_branch :: "'s engine \<Rightarrow> args \<Rightarrow> (invocation_result, 's) action" where
  "merge_branch E args =
     and_then (sync (createGitInstance E)) (\<lambda>git.
     and_then (sync (validateBranchName (args ''sourceBranch''))) (\<lambda>validatedSourceBranch.
     and_then (sync (when_truthy validateBranchName (args ''targetBranch''))) (\<lambda>validatedTargetBranch.
     and_then
       (case if_set validatedTargetBranch of
          Some t \<Rightarrow> await E (Checkout t)
        | None \<Rightarrow> sync (Inr [])) (\<lambda>r.
     and_then (await E (Merge [validatedSourceBranch])) (\<lambda>r.
     sync (Inr (success
       (''Merged '' @ quoted validatedSourceBranch @ '' into '' @
        quoted (or_str validatedTargetBranch ''current branch'')))))))))"

definition remove_worktree :: "'s engine \<Rightarrow> args \<Rightarrow> (invocation_result, 's) action" where
  "remove_worktree E args =
     and_then (sync (createGitInstance E)) (\<lambda>git.
     and_then (sync (validatePath (args ''path''))) (\<lambda>validatedPath.
     and_then (await E (Raw [''worktree'', ''remove'', validatedPath])) (\<lambda>r.
     sync (Inr (success (''Worktree at '' @ quoted validatedPath @ '' removed successfully''))))))"

text \<open>
  \<open>files.length > 0\<close>, asked of a truthy value: a string and an array have a length; a
  number and \<open>true\<close> have none, and \<open>undefined > 0\<close> is false.
\<close>

fun length_gt_0 :: "jsval \<Rightarrow> bool" where
  "length_gt_0 (JStr s) = (s \<noteq> [])"
| "length_gt_0 (JArr xs) = (xs \<noteq> [])"
| "length_gt_0 (JObj l p) = l"
| "length_gt_0 v = False"

text \<open>
  The callback of \<open>files.map\<close> in \<open>commit_changes\<close>, and \<open>Array.prototype.map\<close> with a
  callback that may throw: the first throw ends the loop.
\<close>

definition check_file :: "jsval \<Rightarrow> string result" where
  "check_file file =
     (if typeof file \<noteq> ''string''
      then Inl (JsError ''File paths must be strings'')
      else (case file of
              JStr s \<Rightarrow>
                if js_includes s ''..'' \<or> startsWith s ''/'' \<or> js_includes s [backslash]
                   \<or> has_char dangerous s
                then Inl (JsError (''Invalid file path: '' @ s))
                else Inr s
            | _ \<Rightarrow> Inl (JsError ''File paths must be strings'')))"

fun array_map :: "(jsval \<Rightarrow> 'a result) \<Rightarrow> jsval list \<Rightarrow> 'a list result" where
  "array_map f [] = Inr []"
| "array_map f (x # xs) =
     (case f x of
        Inl e \<Rightarrow> Inl e
      | Inr y \<Rightarrow> (case array_map f xs of Inl e \<Rightarrow> Inl e | Inr ys \<Rightarrow> Inr (y # ys)))"

text \<open>\<open>files.map(callback)\<close>: only an array has a \<open>map\<close> method.\<close>

definition files_map :: "jsval \<Rightarrow> string list result" where
  "files_map files =
     (case files of
        JArr xs \<Rightarrow> array_map check_file xs
      | _ \<Rightarrow> Inl (JsError ''files.map is not a function''))"

definition commit_changes :: "'s engine \<Rightarrow> args \<Rightarrow> (invocation_result, 's) action" where
  "commit_changes E args =
     and_then (sync (createGitInstance E)) (\<lambda>git.
     and_then (sync (validateCommitMessage (args ''message''))) (\<lambda>validatedMessage.
     and_then
       (if truthy (args ''files'') \<and> length_gt_0 (args ''files'')
        then and_then (sync (files_map (args ''files''))) (\<lambda>validatedFiles.
             await E (Add (Files validatedFiles)))
        else await E (Add (Path ''.''))) (\<lambda>r.
     and_then (await E (Commit validatedMessage)) (\<lambda>commit.
     sync (Inr (success (''Changes committed: '' @ commit)))))))"

text \<open>\<open>const { remote = 'origin', branch } = args\<close>: the default stands for \<open>undefined\<close> only.\<close>

definition remote_of :: "args \<Rightarrow> jsval" where
  "remote_of args = (if args ''remote'' = JUndefined then JStr ''origin'' else args ''remote'')"

definition push_changes :: "'s engine \<Rightarrow> args \<Rightarrow> (invocation_result, 's) action" where
  "push_changes E args =
     and_then (sync (createGitInstance E)) (\<lambda>git.
     and_then
       (if truthy (args ''branch'')
        then await E (Push (Some (remote_of args, args ''branch'')))
        else await E (Push None)) (\<lambda>r.
     and_then (sync (template (remote_of args))) (\<lambda>remote.
     and_then
       (sync (if truthy (args ''branch'')
              then (case template (args ''branch'') of Inl e \<Rightarrow> Inl e | Inr b \<Rightarrow> Inr (''/'' @ b))
              else Inr [])) (\<lambda>branch.
     sync (Inr (success (''Changes pushed to '' @ remote @ branch)))))))"

definition pull_changes :: "'s engine \<Rightarrow> args \<Rightarrow> (invocation_result, 's) action" where
  "pull_changes E args =
     and_then (sync (createGitInstance E)) (\<lambda>git.
     and_then
       (if truthy (args ''branch'')
        then await E (Pull (Some (remote_of args, args ''branch'')))
        else await E (Pull None)) (\<lambda>r.
     and_then (sync (template (remote_of args))) (\<lambda>remote.
     and_then
       (sync (if truthy (args ''branch'')
              then (case template (args ''branch'') of Inl e \<Rightarrow> Inl e | Inr b \<Rightarrow> Inr (''/'' @ b))
              else Inr [])) (\<lambda>branch.
     sync (Inr (success (''Changes pulled from '' @ remote @ branch)))))))"

text \<open>The \<open>default\<close> case of the switch: no \<open>try\<close>, nothing that can throw.\<close>

definition unknown_tool :: "string \<Rightarrow> invocation_result" where
  "unknown_tool name =
     \<lparr>content = [\<lparr>c_type = ''text'', c_text = ''Unknown tool: '' @ name\<rparr>], isError = True\<rparr>"

text \<open>
  \<open>executeTool(name, args)\<close>, in the order of its \<open>switch\<close>. The result is \<open>Inr\<close> of the
  returned object, or \<open>Inl\<close> of what the call would let escape.
\<close>

definition executeTool :: "'s engine \<Rightarrow> string \<Rightarrow> args \<Rightarrow> (invocation_result, 's) action" where
  "executeTool E name args =
     (if name = ''git_status'' then try_catch ''Git status error: '' (git_status E)
      else if name = ''create_branch'' then try_catch ''Create branch error: '' (create_branch E args)
      else if name = ''switch_branch'' then try_catch ''Switch branch error: '' (switch_branch E args)
      else if name = ''list_branches'' then try_catch ''List branches error: '' (list_branches E)
      else if name = ''create_worktree''
        then try_catch ''Create worktree error: '' (create_worktree E args)
      else if name = ''list_worktrees'' then try_catch ''List worktrees error: '' (list_worktrees E)
      else if name = ''merge_branch'' then try_catch ''Merge error: '' (merge_branch E args)
      else if name = ''remove_worktree''
        then try_catch ''Remove worktree error: '' (remove_worktree E args)
      else if name = ''commit_changes'' then try_catch ''Commit error: '' (commit_changes E args)
      else if name = ''push_changes'' then try_catch ''Push error: '' (push_changes E args)
      else if name = ''pull_changes'' then try_catch ''Pull error: '' (pull_changes E args)
      else sync (Inr (unknown_tool name)))"

section \<open>The registry and the words of the specification\<close>



text \<open>
  The specification's table of the validation each tool applies: a validator rejects an
  input of the invocation. An optional branch is validated when it is given (truthy); the
  file list is checked element by element.
\<close>

definition validation_rejects :: "string \<Rightarrow> args \<Rightarrow> bool" where
  "validation_rejects name args =
     (if name = ''create_branch''
      then isl (validateBranchName (args ''branchName''))
           \<or> (truthy (args ''fromBranch'') \<and> isl (validateBranchName (args ''fromBranch'')))
      else if name = ''switch_branch''
      then isl (validateBranchName (args ''branchName''))
      else if name = ''merge_branch''
      then isl (validateBranchName (args ''sourceBranch''))
           \<or> (truthy (args ''targetBranch'') \<and> isl (validateBranchName (args ''targetBranch'')))
      else if name = ''create_worktree''
      then isl (validatePath (args ''path''))
           \<or> (truthy (args ''branch'') \<and> isl (validateBranchName (args ''branch'')))
      else if name = ''remove_worktree''
      then isl (validatePath (args ''path''))
      else if name = ''commit_changes''
      then isl (validateCommitMessage (args ''message''))
           \<or> (case args ''files'' of
                 JArr xs \<Rightarrow> list_ex (\<lambda>file. isl (check_file file)) xs
               | _ \<Rightarrow> False)
      else False)"


text \<open>
  A drive-letter-style prefix, in the specification's words: a letter and a colon at the
  start of the candidate, as in \<open>C:/dir\<close>.
\<close>

definition drive_letter_prefix :: "string \<Rightarrow> bool" where
  "drive_letter_prefix s =
     (case s of
        c # d # rest \<Rightarrow>
          c \<in> set ''ABCDEFGHIJKLMNOPQRSTUVWXYZabcdefghijklmnopqrstuvwxyz'' \<and> d = CHR '':''
      | _ \<Rightarrow> False)"

text \<open>
  The file-list check in the specification's words: an entry is offending when it is not a
  string, or is a string that contains \<open>..\<close>, starts with \<open>/\<close>, contains a backslash or
  contains one of the dangerous characters.
\<close>

definition invalid_file_path :: "string \<Rightarrow> bool" where
  "invalid_file_path s \<longleftrightarrow>
     js_includes s ''..'' \<or> startsWith s ''/'' \<or> backslash \<in> set s
     \<or> list_ex (\<lambda>c. c \<in> set ''<>|&;$`'') s"

fun offending :: "jsval \<Rightarrow> bool" where
  "offending (JStr s) = invalid_file_path s"
| "offending v = True"

section \<open>Concrete engines and argument bags\<close>

text \<open>An argument bag from its properties.\<close>

definition bag :: "(string \<times> jsval) list \<Rightarrow> args" where
  "bag props k = (case map_of props k of None \<Rightarrow> JUndefined | Some v \<Rightarrow> v)"


definition resolving :: "nat engine" where
  "resolving =
     \<lparr>REPO_PATH = ''/repo'', simpleGit = (\<lambda>root. None),
      run = (\<lambda>c n. (Inr ''abc123'', Suc n))\<rparr>"


definition fresh :: "nat world" where
  "fresh = \<lparr>repo = 0, calls = []\<rparr>"

section \<open>Facts about the string operations\<close>

text \<open>The search functions mean what their names say.\<close>

lemma startsWith_iff: "startsWith s p \<longleftrightarrow> (\<exists>r. s = p @ r)"
  by (induction s p rule: startsWith.induct) auto

lemma js_includes_iff: "js_includes s p \<longleftrightarrow> (\<exists>a b. s = a @ p @ b)"
proof (induction s)
  case Nil
  then show ?case by auto
next
  case (Cons c cs)
  show ?case
  proof
    assume "js_includes (c # cs) p"
    then consider "startsWith (c # cs) p" | "js_includes cs p" by auto
    then show "\<exists>a b. c # cs = a @ p @ b"
    proof cases
      case 1
      then obtain r where "c # cs = p @ r" using startsWith_iff by blast
      then have "c # cs = [] @ p @ r" by simp
      then show ?thesis by blast
    next
      case 2
      then obtain a b where "cs = a @ p @ b" using Cons.IH by blast
      then have "c # cs = (c # a) @ p @ b" by simp
      then show ?thesis by blast
    qed
  next
    assume "\<exists>a b. c # cs = a @ p @ b"
    then obtain a b where ab: "c # cs = a @ p @ b" by blast
    show "js_includes (c # cs) p"
    proof (cases a)
      case Nil
      with ab have "startsWith (c # cs) p" using startsWith_iff by auto
      then show ?thesis by simp
    next
      case (Cons x a')
      with ab have "cs = a' @ p @ b" by simp
      then have "js_includes cs p" using Cons.IH by blast
      then show ?thesis by simp
    qed
  qed
qed

lemma js_includes_char: "js_includes s [c] \<longleftrightarrow> c \<in> set s"
  by (induction s) auto

lemma has_char_iff: "has_char cls s \<longleftrightarrow> (\<exists>c\<in>set s. c \<in> set cls)"
  by (simp add: has_char_def list_ex_iff)


section \<open>Facts about sequencing\<close>


lemma and_then_sync: "and_then (sync x) f w = (case x of Inl e \<Rightarrow> (Inl e, w) | Inr a \<Rightarrow> f a w)"
  by (simp add: and_then_def sync_def split: sum.splits)


lemma and_then_assoc: "and_then (and_then m f) g = and_then m (\<lambda>a. and_then (f a) g)"
  by (rule ext) (simp add: and_then_def split: prod.splits sum.splits)

lemma try_catch_Inl: "body w = (Inl e, w') \<Longrightarrow> try_catch a body w = (Inr (failure a e), w')"
  by (simp add: try_catch_def)

section \<open>Every body returns a success or throws\<close>












section \<open>A rejected input stops a body before its first primitive\<close>

lemma create_branch_rejects:
  "isl (validateBranchName (args ''branchName''))
     \<or> (truthy (args ''fromBranch'') \<and> isl (validateBranchName (args ''fromBranch'')))
   \<Longrightarrow> \<exists>e. create_branch E args w = (Inl e, w)"
  by (auto simp: create_branch_def and_then_sync when_truthy_def isl_def split: sum.splits)

lemma switch_branch_rejects:
  "isl (validateBranchName (args ''branchName'')) \<Longrightarrow> \<exists>e. switch_branch E args w = (Inl e, w)"
  by (auto simp: switch_branch_def and_then_sync isl_def split: sum.splits)

lemma merge_branch_rejects:
  "isl (validateBranchName (args ''sourceBranch''))
     \<or> (truthy (args ''targetBranch'') \<and> isl (validateBranchName (args ''targetBranch'')))
   \<Longrightarrow> \<exists>e. merge_branch E args w = (Inl e, w)"
  by (auto simp: merge_branch_def and_then_sync when_truthy_def isl_def split: sum.splits)

lemma create_worktree_rejects:
  "isl (validatePath (args ''path''))
     \<or> (truthy (args ''branch'') \<and> isl (validateBranchName (args ''branch'')))
   \<Longrightarrow> \<exists>e. create_worktree E args w = (Inl e, w)"
  by (auto simp: create_worktree_def and_then_sync when_truthy_def isl_def split: sum.splits)

lemma remove_worktree_rejects:
  "isl (validatePath (args ''path'')) \<Longrightarrow> \<exists>e. remove_worktree E args w = (Inl e, w)"
  by (auto simp: remove_worktree_def and_then_sync isl_def split: sum.splits)

lemma array_map_rejects:
  "list_ex (\<lambda>x. isl (f x)) xs \<Longrightarrow> isl (array_map f xs)"
  by (induction xs) (auto split: sum.splits)

lemma commit_changes_rejects:
  assumes "isl (validateCommitMessage (args ''message''))
     \<or> (case args ''files'' of JArr xs \<Rightarrow> list_ex (\<lambda>file. isl (check_file file)) xs | _ \<Rightarrow> False)"
  shows "\<exists>e. commit_changes E args w = (Inl e, w)"
  using assms
proof
  assume "isl (validateCommitMessage (args ''message''))"
  then show ?thesis
    by (auto simp: commit_changes_def and_then_sync isl_def split: sum.splits)
next
  assume "case args ''files'' of JArr xs \<Rightarrow> list_ex (\<lambda>file. isl (check_file file)) xs | _ \<Rightarrow> False"
  then obtain xs where xs: "args ''files'' = JArr xs" and ex: "list_ex (\<lambda>file. isl (check_file file)) xs"
    by (auto split: jsval.splits)
  from ex have ne: "xs \<noteq> []" by auto
  from ex obtain e where "array_map check_file xs = Inl e"
    using array_map_rejects [of check_file xs] by (auto simp: isl_def)
  with xs ne show ?thesis
    by (auto simp: commit_changes_def and_then_assoc and_then_sync files_map_def
        split: sum.splits)
qed

section \<open>Facts about splitting, the handle and the file list\<close>

text \<open>
  \<open>js_split\<close> is the split of a string at a separator: at least one segment, no separator
  inside a segment, and the segments joined by the separator give the string back.
\<close>

lemma js_split_nonempty: "js_split s c \<noteq> []"
  by (induction s) (auto split: list.splits)

lemma js_split_segments: "seg \<in> set (js_split s c) \<Longrightarrow> c \<notin> set seg"
  by (induction s arbitrary: seg) (auto split: if_splits list.splits)

lemma js_split_joins: "concat (map (\<lambda>seg. c # seg) (js_split s c)) = c # s"
  by (induction s) (auto split: list.splits)

lemma handle_created: "simpleGit E (REPO_PATH E) = None \<Longrightarrow> createGitInstance E = Inr ()"
  by (simp add: createGitInstance_def)

text \<open>The callback of the file list accepts exactly the entries that are not offending.\<close>

lemma check_file_offending:
  "offending x \<Longrightarrow>
   check_file x = Inl (JsError (case x of JStr s \<Rightarrow> ''Invalid file path: '' @ s
                                | _ \<Rightarrow> ''File paths must be strings''))"
  by (cases x)
    (auto simp: check_file_def invalid_file_path_def js_includes_char has_char_def dangerous_def)

lemma check_file_accepts: "\<not> offending f \<Longrightarrow> \<exists>s. f = JStr s \<and> check_file f = Inr s"
  by (cases f)
    (auto simp: check_file_def invalid_file_path_def js_includes_char has_char_def dangerous_def)

lemma array_map_first_offending:
  "\<forall>f\<in>set pre. \<not> offending f \<Longrightarrow> check_file x = Inl e \<Longrightarrow>
   array_map check_file (pre @ x # post) = Inl e"
proof (induction pre)
  case Nil
  then show ?case by simp
next
  case (Cons f pre)
  from Cons.prems obtain s where "check_file f = Inr s"
    using check_file_accepts [of f] by auto
  moreover from Cons have "array_map check_file (pre @ x # post) = Inl e" by simp
  ultimately show ?case by simp
qed

section \<open>Facts about the try blocks\<close>









text \<open>With a branch, \<open>push_changes\<close> passes the remote and the branch to \<open>push\<close>.\<close>

lemma push_changes_with_branch:
  assumes "simpleGit E (REPO_PATH E) = None"
    and "args ''remote'' = JUndefined \<and> remote = ''origin'' \<or> args ''remote'' = JStr remote"
    and "args ''branch'' = JStr branch" and "branch \<noteq> []"
  shows "calls (snd (executeTool E ''push_changes'' args w)) =
           calls w @ [Push (Some (JStr remote, JStr branch))]
       \<and> (\<forall>out. fst (run E (Push (Some (JStr remote, JStr branch))) (repo w)) = Inr out \<longrightarrow>
            fst (executeTool E ''push_changes'' args w) =
              Inr (success (''Changes pushed to '' @ remote @ ''/'' @ branch)))"
proof -
  from assms(2) have r: "remote_of args = JStr remote"
    by (auto simp: remote_of_def)
  show ?thesis
    using assms(1,3,4) r
    by (auto simp: executeTool_def try_catch_def push_changes_def and_then_def sync_def
        await_def handle_created template_def split: prod.splits sum.splits)
qed

section \<open>The claims\<close>

subsection \<open>Results of the dispatcher\<close>




subsection \<open>Validation comes before every primitive\<close>

text \<open>
  Claim C2. Whenever a validator rejects an input of an invocation (\<open>validatePath\<close>,
  \<open>validateBranchName\<close>, \<open>validateCommitMessage\<close> or the check of the commit file list, each
  on the arguments the tool applies it to), \<open>executeTool\<close> returns a failure and leaves the
  world as it was: the log of invoked primitives has not grown, so no checkout, merge,
  worktree command, add, commit, push or pull was attempted, and the repository state is
  the one before the call.
\<close>

theorem validation_failure_invokes_nothing:
  assumes "validation_rejects name args"
  shows "\<exists>r. executeTool E name args w = (Inr r, w) \<and> isError r"
proof -
  have fail: "\<And>body a. \<exists>e. body w = (Inl e, w) \<Longrightarrow>
      \<exists>r. try_catch a body w = (Inr r, w) \<and> isError r"
    by (auto simp: try_catch_def failure_def)
  from assms show ?thesis
    unfolding validation_rejects_def executeTool_def
    by (auto split: if_splits
        intro!: fail create_branch_rejects switch_branch_rejects merge_branch_rejects
          create_worktree_rejects remove_worktree_rejects commit_changes_rejects)
qed

theorem validation_failure_invokes_nothing_witness:
  "validation_rejects ''create_branch'' (bag [(''branchName'', JStr ''a;b'')])
   \<and> (\<exists>r. executeTool resolving ''create_branch'' (bag [(''branchName'', JStr ''a;b'')]) fresh =
            (Inr r, fresh) \<and> isError r)
   \<and> validation_rejects ''commit_changes''
        (bag [(''message'', JStr ''m''), (''files'', JArr [JStr ''../x''])])
   \<and> (\<exists>r. executeTool resolving ''commit_changes''
              (bag [(''message'', JStr ''m''), (''files'', JArr [JStr ''../x''])]) fresh =
            (Inr r, fresh) \<and> isError r)"
proof -
  have h1: "validation_rejects ''create_branch'' (bag [(''branchName'', JStr ''a;b'')])"
    by (simp add: validation_rejects_def bag_def validateBranchName_def has_char_def
        dangerous_def)
  have h2: "validation_rejects ''commit_changes''
        (bag [(''message'', JStr ''m''), (''files'', JArr [JStr ''../x''])])"
    by (simp add: validation_rejects_def bag_def check_file_def)
  from validation_failure_invokes_nothing [OF h1, of resolving fresh]
    validation_failure_invokes_nothing [OF h2, of resolving fresh] h1 h2
  show ?thesis by blast
qed

subsection \<open>The validators\<close>

text \<open>
  Claim C3, as the code has it by design. \<open>validatePath\<close> fails with the non-empty-string
  message on a candidate that is not a string or is empty; with the path-traversal message
  on a string that contains \<open>..\<close>, begins with \<open>/\<close>, or contains a backslash anywhere; with
  the dangerous-characters message on any other string that contains one of
  \<open>< > | & ; $ `\<close>; and it returns unchanged every remaining candidate that does not begin
  with a drive-letter prefix. Of a candidate that begins with a drive letter and passes the
  other checks the statement says nothing.
\<close>

theorem validatePath_amended:
  "((\<forall>s. v \<noteq> JStr s) \<or> v = JStr [] \<longrightarrow>
      validatePath v = Inl (JsError ''Path must be a non-empty string''))
   \<and> (s \<noteq> [] \<and> ((\<exists>a b. s = a @ ''..'' @ b) \<or> (\<exists>r. s = ''/'' @ r) \<or> backslash \<in> set s) \<longrightarrow>
      validatePath (JStr s) = Inl (JsError ''Invalid path: path traversal not allowed''))
   \<and> (s \<noteq> [] \<and> \<not> (\<exists>a b. s = a @ ''..'' @ b) \<and> \<not> (\<exists>r. s = ''/'' @ r) \<and> backslash \<notin> set s
        \<and> (\<exists>c\<in>set s. c \<in> set ''<>|&;$`'') \<longrightarrow>
      validatePath (JStr s) = Inl (JsError ''Invalid path: dangerous characters not allowed''))
   \<and> (s \<noteq> [] \<and> \<not> (\<exists>a b. s = a @ ''..'' @ b) \<and> \<not> (\<exists>r. s = ''/'' @ r) \<and> backslash \<notin> set s
        \<and> (\<forall>c\<in>set s. c \<notin> set ''<>|&;$`'') \<and> \<not> drive_letter_prefix s \<longrightarrow>
      validatePath (JStr s) = Inr s)"
proof -
  have inc: "js_includes s ''..'' \<longleftrightarrow> (\<exists>a b. s = a @ ''..'' @ b)"
    by (rule js_includes_iff)
  have sl: "startsWith s ''/'' \<longleftrightarrow> (\<exists>r. s = ''/'' @ r)"
    by (rule startsWith_iff)
  have bs: "js_includes s [backslash] \<longleftrightarrow> backslash \<in> set s"
    by (rule js_includes_char)
  have dg: "has_char dangerous s \<longleftrightarrow> (\<exists>c\<in>set s. c \<in> set ''<>|&;$`'')"
    by (simp add: has_char_iff dangerous_def)
  have a: "(\<forall>s. v \<noteq> JStr s) \<or> v = JStr [] \<longrightarrow>
      validatePath v = Inl (JsError ''Path must be a non-empty string'')"
    by (cases v) (auto simp: validatePath_def)
  have dg2: "\<not> has_char dangerous s \<longleftrightarrow> (\<forall>c\<in>set s. c \<notin> set ''<>|&;$`'')"
    by (simp add: has_char_iff dangerous_def)
  have b: "validatePath (JStr s) =
     (if s = [] then Inl (JsError ''Path must be a non-empty string'')
      else if js_includes s ''..'' \<or> startsWith s ''/'' \<or> js_includes s [backslash]
      then Inl (JsError ''Invalid path: path traversal not allowed'')
      else if has_char dangerous s
      then Inl (JsError ''Invalid path: dangerous characters not allowed'')
      else Inr s)"
    by (simp add: validatePath_def)
  show ?thesis
    unfolding inc [symmetric] sl [symmetric] bs [symmetric] dg [symmetric] dg2 [symmetric] b
    using a by auto
qed

theorem validatePath_amended_witness:
  "validatePath JNull = Inl (JsError ''Path must be a non-empty string'')
   \<and> validatePath (JStr ''a/../b'') = Inl (JsError ''Invalid path: path traversal not allowed'')
   \<and> validatePath (JStr ''a;b'') = Inl (JsError ''Invalid path: dangerous characters not allowed'')
   \<and> validatePath (JStr ''tmp/w'') = Inr ''tmp/w''"
proof -
  have n1: "\<not> (\<exists>a b. ''a;b'' = a @ ''..'' @ b)" and n2: "\<not> (\<exists>a b. ''tmp/w'' = a @ ''..'' @ b)"
    unfolding js_includes_iff [symmetric] by simp_all
  have p1: "\<exists>a b. ''a/../b'' = a @ ''..'' @ b"
    unfolding js_includes_iff [symmetric] by simp
  have s1: "\<not> (\<exists>r. ''a;b'' = ''/'' @ r)" and s2: "\<not> (\<exists>r. ''tmp/w'' = ''/'' @ r)"
    by simp_all
  have b1: "backslash \<notin> set ''a;b''" and b2: "backslash \<notin> set ''tmp/w''"
    by (simp_all add: backslash_def)
  have d1: "\<exists>c\<in>set ''a;b''. c \<in> set ''<>|&;$`''" and d2: "\<forall>c\<in>set ''tmp/w''. c \<notin> set ''<>|&;$`''"
    by simp_all
  have l2: "\<not> drive_letter_prefix ''tmp/w''"
    by (simp add: drive_letter_prefix_def)
  have "validatePath JNull = Inl (JsError ''Path must be a non-empty string'')"
    using validatePath_amended [of JNull] by simp
  moreover have "validatePath (JStr ''a/../b'') = Inl (JsError ''Invalid path: path traversal not allowed'')"
    using validatePath_amended [of _ "''a/../b''"] p1 by blast
  moreover have "validatePath (JStr ''a;b'') = Inl (JsError ''Invalid path: dangerous characters not allowed'')"
    using validatePath_amended [of _ "''a;b''"] n1 s1 b1 d1 by blast
  moreover have "validatePath (JStr ''tmp/w'') = Inr ''tmp/w''"
    using validatePath_amended [of _ "''tmp/w''"] n2 s2 b2 d2 l2 by blast
  ultimately show ?thesis by blast
qed

text \<open>
  The claim as written fails on a backslash that is not at the start: \<open>a\b\<close> is a non-empty
  string in none of the claim's failing classes and without a dangerous character, and it
  is rejected.
\<close>

theorem validatePath_counterexample:
  "validatePath (JStr [CHR ''a'', CHR 0x5C, CHR ''b'']) =
       Inl (JsError ''Invalid path: path traversal not allowed'')
   \<and> [CHR ''a'', CHR 0x5C, CHR ''b''] \<noteq> []
   \<and> \<not> js_includes [CHR ''a'', CHR 0x5C, CHR ''b''] ''..''
   \<and> \<not> startsWith [CHR ''a'', CHR 0x5C, CHR ''b''] ''/''
   \<and> \<not> startsWith [CHR ''a'', CHR 0x5C, CHR ''b''] [CHR 0x5C]
   \<and> \<not> drive_letter_prefix [CHR ''a'', CHR 0x5C, CHR ''b'']
   \<and> \<not> has_char ''<>|&;$`'' [CHR ''a'', CHR 0x5C, CHR ''b'']"
  by (simp add: validatePath_def has_char_def dangerous_def backslash_def drive_letter_prefix_def)

text \<open>
  The source comments its second check with \<open>Prevent absolute paths and other dangerous\<close>
  \<open>patterns\<close>, and no check looks at a drive letter: a drive-letter path written with forward
  slashes passes. This gap of the validator is outside the statement above.
\<close>

lemma validatePath_drive_letter:
  "drive_letter_prefix ''C:/dir'' \<and> validatePath (JStr ''C:/dir'') = Inr ''C:/dir''"
  by (simp add: validatePath_def has_char_def dangerous_def backslash_def drive_letter_prefix_def)

text \<open>
  Claim C4, as the code has it. On every string that contains one of \<open>< > | & ; $ `\<close>, all
  three validators fail. \<open>validateBranchName\<close> and \<open>validateCommitMessage\<close> fail with their
  dangerous-characters message. \<open>validatePath\<close> checks for traversal first: it fails with the
  path-traversal message when the string also contains \<open>..\<close>, begins with \<open>/\<close> or contains
  a backslash, and with the dangerous-characters message otherwise.
\<close>

theorem dangerous_characters_amended:
  assumes "c \<in> set s" and "c \<in> set ''<>|&;$`''"
  shows "validateBranchName (JStr s) =
           Inl (JsError ''Invalid branch name: dangerous characters not allowed'')
       \<and> validateCommitMessage (JStr s) =
           Inl (JsError ''Invalid commit message: dangerous characters not allowed'')
       \<and> validatePath (JStr s) =
           Inl (JsError (if (\<exists>a b. s = a @ ''..'' @ b) \<or> (\<exists>r. s = ''/'' @ r) \<or> backslash \<in> set s
                         then ''Invalid path: path traversal not allowed''
                         else ''Invalid path: dangerous characters not allowed''))"
proof -
  from assms have ne: "s \<noteq> []" by auto
  from assms have d: "has_char dangerous s"
    by (auto simp: has_char_iff dangerous_def)
  then have d': "has_char (dangerous @ [backslash]) s"
    by (auto simp: has_char_iff)
  have inc: "js_includes s ''..'' \<longleftrightarrow> (\<exists>a b. s = a @ ''..'' @ b)"
    by (rule js_includes_iff)
  have sl: "startsWith s ''/'' \<longleftrightarrow> (\<exists>r. s = ''/'' @ r)"
    by (rule startsWith_iff)
  have bs: "js_includes s [backslash] \<longleftrightarrow> backslash \<in> set s"
    by (rule js_includes_char)
  have 1: "validateBranchName (JStr s) =
           Inl (JsError ''Invalid branch name: dangerous characters not allowed'')"
    using ne d' by (simp add: validateBranchName_def)
  have 2: "validateCommitMessage (JStr s) =
           Inl (JsError ''Invalid commit message: dangerous characters not allowed'')"
    using ne d' by (simp add: validateCommitMessage_def)
  have 3: "validatePath (JStr s) =
           Inl (JsError (if js_includes s ''..'' \<or> startsWith s ''/'' \<or> js_includes s [backslash]
                         then ''Invalid path: path traversal not allowed''
                         else ''Invalid path: dangerous characters not allowed''))"
    using ne d by (simp add: validatePath_def)
  from 1 2 3 show ?thesis
    unfolding inc sl bs by blast
qed

theorem dangerous_characters_amended_witness:
  "validateBranchName (JStr ''a;b'') =
       Inl (JsError ''Invalid branch name: dangerous characters not allowed'')
   \<and> validateCommitMessage (JStr ''a;b'') =
       Inl (JsError ''Invalid commit message: dangerous characters not allowed'')
   \<and> validatePath (JStr ''a;b'') = Inl (JsError ''Invalid path: dangerous characters not allowed'')
   \<and> validatePath (JStr ''a;..'') = Inl (JsError ''Invalid path: path traversal not allowed'')"
proof -
  have m1: "CHR '';'' \<in> set ''a;b''" and m2: "CHR '';'' \<in> set ''a;..''"
    and d: "CHR '';'' \<in> set ''<>|&;$`''"
    by simp_all
  have n: "\<not> ((\<exists>a b. ''a;b'' = a @ ''..'' @ b) \<or> (\<exists>r. ''a;b'' = ''/'' @ r)
              \<or> backslash \<in> set ''a;b'')"
    unfolding js_includes_iff [symmetric] by (simp add: backslash_def)
  have p: "(\<exists>a b. ''a;..'' = a @ ''..'' @ b) \<or> (\<exists>r. ''a;..'' = ''/'' @ r)
              \<or> backslash \<in> set ''a;..''"
    unfolding js_includes_iff [symmetric] by simp
  from dangerous_characters_amended [OF m1 d] n
    dangerous_characters_amended [OF m2 d] p
  show ?thesis by simp
qed

text \<open>
  The claim as written fails for \<open>validatePath\<close>: the string \<open>a;..\<close> holds a dangerous
  character and is rejected with the path-traversal message.
\<close>

theorem dangerous_characters_counterexample:
  "CHR '';'' \<in> set ''a;..''
   \<and> validatePath (JStr ''a;..'') = Inl (JsError ''Invalid path: path traversal not allowed'')"
  by (simp add: validatePath_def)

text \<open>
  Claim C8, as the code has it. \<open>validateCommitMessage\<close> fails with the non-empty-string
  message on a candidate that is not a string or is empty, and with the dangerous-characters
  message on a string that contains one of \<open>< > | & ; $ `\<close> or a backslash. Every other
  candidate, \<open>..\<close>, white space and newlines included, is returned unchanged.
\<close>

theorem validateCommitMessage_amended:
  "((\<forall>s. v \<noteq> JStr s) \<or> v = JStr [] \<longrightarrow>
      validateCommitMessage v = Inl (JsError ''Commit message must be a non-empty string''))
   \<and> (s \<noteq> [] \<and> (\<exists>c\<in>set s. c \<in> set ''<>|&;$`'' \<or> c = backslash) \<longrightarrow>
      validateCommitMessage (JStr s) =
        Inl (JsError ''Invalid commit message: dangerous characters not allowed''))
   \<and> (s \<noteq> [] \<and> (\<forall>c\<in>set s. c \<notin> set ''<>|&;$`'' \<and> c \<noteq> backslash) \<longrightarrow>
      validateCommitMessage (JStr s) = Inr s)"
proof -
  have a: "(\<forall>s. v \<noteq> JStr s) \<or> v = JStr [] \<longrightarrow>
      validateCommitMessage v = Inl (JsError ''Commit message must be a non-empty string'')"
    by (cases v) (auto simp: validateCommitMessage_def)
  have dg: "has_char (dangerous @ [backslash]) s \<longleftrightarrow>
      (\<exists>c\<in>set s. c \<in> set ''<>|&;$`'' \<or> c = backslash)"
    by (auto simp: has_char_iff dangerous_def)
  have b: "s \<noteq> [] \<Longrightarrow> validateCommitMessage (JStr s) =
     (if has_char (dangerous @ [backslash]) s
      then Inl (JsError ''Invalid commit message: dangerous characters not allowed'')
      else Inr s)"
    by (simp add: validateCommitMessage_def)
  from a b show ?thesis
    unfolding dg by auto
qed

theorem validateCommitMessage_amended_witness:
  "validateCommitMessage JUndefined = Inl (JsError ''Commit message must be a non-empty string'')
   \<and> validateCommitMessage (JStr ''a|b'') =
        Inl (JsError ''Invalid commit message: dangerous characters not allowed'')
   \<and> validateCommitMessage (JStr [CHR ''a'', CHR 0x5C, CHR ''b'']) =
        Inl (JsError ''Invalid commit message: dangerous characters not allowed'')
   \<and> validateCommitMessage (JStr [CHR '' '', CHR ''a'', CHR ''.'', CHR ''.'', CHR 0x0A, CHR ''b'', CHR '' '']) =
        Inr [CHR '' '', CHR ''a'', CHR ''.'', CHR ''.'', CHR 0x0A, CHR ''b'', CHR '' '']"
proof -
  have h1: "\<forall>s. JUndefined \<noteq> JStr s" by simp
  have h2: "''a|b'' \<noteq> [] \<and> (\<exists>c\<in>set ''a|b''. c \<in> set ''<>|&;$`'' \<or> c = backslash)"
    by simp
  have h3: "[CHR ''a'', CHR 0x5C, CHR ''b''] \<noteq> []
      \<and> (\<exists>c\<in>set [CHR ''a'', CHR 0x5C, CHR ''b'']. c \<in> set ''<>|&;$`'' \<or> c = backslash)"
    by (simp add: backslash_def)
  have h4: "[CHR '' '', CHR ''a'', CHR ''.'', CHR ''.'', CHR 0x0A, CHR ''b'', CHR '' ''] \<noteq> []
      \<and> (\<forall>c\<in>set [CHR '' '', CHR ''a'', CHR ''.'', CHR ''.'', CHR 0x0A, CHR ''b'', CHR '' ''].
            c \<notin> set ''<>|&;$`'' \<and> c \<noteq> backslash)"
    by (simp add: backslash_def)
  from validateCommitMessage_amended [of JUndefined] h1
    validateCommitMessage_amended [of _ "''a|b''"] h2
    validateCommitMessage_amended [of _ "[CHR ''a'', CHR 0x5C, CHR ''b'']"] h3
    validateCommitMessage_amended
      [of _ "[CHR '' '', CHR ''a'', CHR ''.'', CHR ''.'', CHR 0x0A, CHR ''b'', CHR '' '']"] h4
  show ?thesis by blast
qed

text \<open>
  The claim as written fails on a backslash: the message \<open>a\b\<close> is a non-empty string with
  none of the seven listed characters, and it is rejected.
\<close>

theorem validateCommitMessage_counterexample:
  "[CHR ''a'', CHR 0x5C, CHR ''b''] \<noteq> []
   \<and> \<not> has_char ''<>|&;$`'' [CHR ''a'', CHR 0x5C, CHR ''b'']
   \<and> validateCommitMessage (JStr [CHR ''a'', CHR 0x5C, CHR ''b'']) =
        Inl (JsError ''Invalid commit message: dangerous characters not allowed'')"
  by (simp add: validateCommitMessage_def has_char_def dangerous_def backslash_def)

text \<open>
  Claim C9. \<open>validatePath\<close> rejects every string that holds a backslash, wherever it stands,
  with the path-traversal message. The two tools that take a path, \<open>create_worktree\<close> and
  \<open>remove_worktree\<close>, then return a failure and invoke no primitive: the world is unchanged.
\<close>

theorem backslash_path_rejected:
  assumes "backslash \<in> set s"
  shows "validatePath (JStr s) = Inl (JsError ''Invalid path: path traversal not allowed'')
       \<and> (args ''path'' = JStr s \<longrightarrow>
            (\<exists>r. executeTool E ''create_worktree'' args w = (Inr r, w) \<and> isError r)
          \<and> (\<exists>r. executeTool E ''remove_worktree'' args w = (Inr r, w) \<and> isError r))"
proof -
  from assms have ne: "s \<noteq> []" by auto
  from assms have "js_includes s [backslash]"
    by (simp add: js_includes_char)
  with ne have v: "validatePath (JStr s) =
      Inl (JsError ''Invalid path: path traversal not allowed'')"
    by (simp add: validatePath_def)
  have "\<exists>r. executeTool E ''create_worktree'' args w = (Inr r, w) \<and> isError r"
    and "\<exists>r. executeTool E ''remove_worktree'' args w = (Inr r, w) \<and> isError r"
    if "args ''path'' = JStr s"
  proof -
    from that v have rej: "isl (validatePath (args ''path''))" by simp
    from create_worktree_rejects [of args E w] rej
    obtain e where "create_worktree E args w = (Inl e, w)" by blast
    then show "\<exists>r. executeTool E ''create_worktree'' args w = (Inr r, w) \<and> isError r"
      by (simp add: executeTool_def try_catch_def failure_def)
    from remove_worktree_rejects [of args E w] rej
    obtain e where "remove_worktree E args w = (Inl e, w)" by blast
    then show "\<exists>r. executeTool E ''remove_worktree'' args w = (Inr r, w) \<and> isError r"
      by (simp add: executeTool_def try_catch_def failure_def)
  qed
  with v show ?thesis by blast
qed

theorem backslash_path_rejected_witness:
  "validatePath (JStr [CHR ''a'', CHR 0x5C, CHR ''b'']) =
     Inl (JsError ''Invalid path: path traversal not allowed'')
   \<and> (\<exists>r. executeTool resolving ''create_worktree''
             (bag [(''path'', JStr [CHR ''a'', CHR 0x5C, CHR ''b''])]) fresh = (Inr r, fresh)
          \<and> isError r)
   \<and> (\<exists>r. executeTool resolving ''remove_worktree''
             (bag [(''path'', JStr [CHR ''a'', CHR 0x5C, CHR ''b''])]) fresh = (Inr r, fresh)
          \<and> isError r)"
proof -
  have h: "backslash \<in> set [CHR ''a'', CHR 0x5C, CHR ''b'']"
    by (simp add: backslash_def)
  have p: "bag [(''path'', JStr [CHR ''a'', CHR 0x5C, CHR ''b''])] ''path'' =
      JStr [CHR ''a'', CHR 0x5C, CHR ''b'']"
    by (simp add: bag_def)
  from backslash_path_rejected
    [OF h, of "bag [(''path'', JStr [CHR ''a'', CHR 0x5C, CHR ''b''])]" resolving fresh] p
  show ?thesis by blast
qed

subsection \<open>The tools\<close>

text \<open>
  Claim C5. When the handle is created, the path is valid and no branch is given (the
  \<open>branch\<close> argument is absent or falsy), \<open>create_worktree\<close> invokes
  \<open>raw(['worktree', 'add', '-b', worktreeBranch, path])\<close> where \<open>worktreeBranch\<close> is the final
  segment of the path split on \<open>/\<close> when that segment is not empty, and the literal
  \<open>worktree-branch\<close> when it is empty; when the primitive resolves, the text names the same
  branch. The witness has the two paths of the claim: \<open>tmp/w\<close> derives \<open>w\<close>, and \<open>tmp/\<close>
  derives \<open>worktree-branch\<close>.
\<close>

theorem create_worktree_default_branch:
  assumes "simpleGit E (REPO_PATH E) = None"
    and "validatePath (args ''path'') = Inr p"
    and "\<not> truthy (args ''branch'')"
    and "worktreeBranch =
           (if last (js_split p (CHR ''/'')) = [] then ''worktree-branch''
            else last (js_split p (CHR ''/'')))"
  shows "calls (snd (executeTool E ''create_worktree'' args w)) =
           calls w @ [Raw [''worktree'', ''add'', ''-b'', worktreeBranch, p]]
       \<and> (\<forall>out. fst (run E (Raw [''worktree'', ''add'', ''-b'', worktreeBranch, p]) (repo w)) = Inr out \<longrightarrow>
            fst (executeTool E ''create_worktree'' args w) =
              Inr (success (''Worktree created at '' @ quoted p @ '' on new branch '' @
                            quoted worktreeBranch)))"
proof -
  have wb: "or_str None (or_str (pop (js_split p (CHR ''/''))) ''worktree-branch'') = worktreeBranch"
    using assms(4) js_split_nonempty [of p "CHR ''/''"]
    by (simp add: or_str_def if_set_def pop_def)
  have body: "create_worktree E args w =
      and_then (await E (Raw [''worktree'', ''add'', ''-b'', worktreeBranch, p])) (\<lambda>r.
        sync (Inr (success (''Worktree created at '' @ quoted p @ '' on new branch '' @
                            quoted worktreeBranch)))) w"
    using assms(1-3) wb
    by (simp add: create_worktree_def and_then_sync handle_created when_truthy_def)
  show ?thesis
    by (auto simp: executeTool_def try_catch_def body and_then_def await_def sync_def
        split: prod.splits sum.splits)
qed

theorem create_worktree_default_branch_witness:
  "calls (snd (executeTool resolving ''create_worktree'' (bag [(''path'', JStr ''tmp/w'')]) fresh)) =
     [Raw [''worktree'', ''add'', ''-b'', ''w'', ''tmp/w'']]
   \<and> calls (snd (executeTool resolving ''create_worktree'' (bag [(''path'', JStr ''tmp/'')]) fresh)) =
     [Raw [''worktree'', ''add'', ''-b'', ''worktree-branch'', ''tmp/'']]"
proof -
  have g: "simpleGit resolving (REPO_PATH resolving) = None"
    by (simp add: resolving_def)
  have p1: "validatePath (bag [(''path'', JStr ''tmp/w'')] ''path'') = Inr ''tmp/w''"
    and p2: "validatePath (bag [(''path'', JStr ''tmp/'')] ''path'') = Inr ''tmp/''"
    by (simp_all add: bag_def validatePath_def has_char_def dangerous_def backslash_def)
  have b1: "\<not> truthy (bag [(''path'', JStr ''tmp/w'')] ''branch'')"
    and b2: "\<not> truthy (bag [(''path'', JStr ''tmp/'')] ''branch'')"
    by (simp_all add: bag_def)
  have w1: "''w'' = (if last (js_split ''tmp/w'' (CHR ''/'')) = [] then ''worktree-branch''
                     else last (js_split ''tmp/w'' (CHR ''/'')))"
    and w2: "''worktree-branch'' = (if last (js_split ''tmp/'' (CHR ''/'')) = [] then ''worktree-branch''
                     else last (js_split ''tmp/'' (CHR ''/'')))"
    by simp_all
  from create_worktree_default_branch [OF g p1 b1 w1, of fresh]
    create_worktree_default_branch [OF g p2 b2 w2, of fresh]
  show ?thesis by (simp add: fresh_def)
qed

text \<open>
  Claim C6. The code at the input where it departs from the claim: a remote given without a
  branch. \<open>push\<close> is invoked with no argument, so the remote is dropped, and the text still
  reports a push to that remote. With a branch the same case passes the remote on
  (\<open>push_changes_with_branch\<close>).
\<close>

theorem push_changes_drops_remote:
  "executeTool resolving ''push_changes'' (bag [(''remote'', JStr ''upstream'')]) fresh =
     (Inr \<lparr>content = [\<lparr>c_type = ''text'', c_text = ''Changes pushed to upstream''\<rparr>],
           isError = False\<rparr>,
      \<lparr>repo = 1, calls = [Push None]\<rparr>)"
  by (simp add: executeTool_def try_catch_def push_changes_def and_then_def sync_def
      await_def createGitInstance_def resolving_def fresh_def bag_def remote_of_def template_def
      success_def)

text \<open>
  Claim C7, as the code has it. Let the \<open>files\<close> array hold an offending entry (not a string,
  or a string that contains \<open>..\<close>, starts with \<open>/\<close>, contains a backslash or a dangerous
  character), and let \<open>x\<close> be the first one. Then the whole batch fails and nothing is
  invoked: no file is staged, no commit is made. When the handle is created and the message
  is valid, the text is \<open>Commit error: Invalid file path: <x>\<close> for a string \<open>x\<close>, and the
  fixed \<open>Commit error: File paths must be strings\<close>, which does not name the entry, for any
  other \<open>x\<close>.
\<close>

theorem commit_file_list_amended:
  assumes "args ''files'' = JArr (pre @ x # post)"
    and "\<forall>f\<in>set pre. \<not> offending f"
    and "offending x"
  shows "(\<exists>r. executeTool E ''commit_changes'' args w = (Inr r, w) \<and> isError r)
       \<and> (simpleGit E (REPO_PATH E) = None \<and> validateCommitMessage (args ''message'') = Inr m \<longrightarrow>
            executeTool E ''commit_changes'' args w =
              (Inr (failure ''Commit error: ''
                      (JsError (case x of JStr s \<Rightarrow> ''Invalid file path: '' @ s
                                | _ \<Rightarrow> ''File paths must be strings''))), w))"
proof -
  let ?e = "JsError (case x of JStr s \<Rightarrow> ''Invalid file path: '' @ s
                     | _ \<Rightarrow> ''File paths must be strings'')"
  from assms(2,3) have am: "array_map check_file (pre @ x # post) = Inl ?e"
    by (intro array_map_first_offending check_file_offending)
  then have "list_ex (\<lambda>file. isl (check_file file)) (pre @ x # post)"
    using assms(3) by (simp add: check_file_offending)
  with assms(1) have "\<exists>e. commit_changes E args w = (Inl e, w)"
    by (intro commit_changes_rejects) simp
  then have first: "\<exists>r. executeTool E ''commit_changes'' args w = (Inr r, w) \<and> isError r"
    by (auto simp: executeTool_def try_catch_def failure_def)
  have second: "executeTool E ''commit_changes'' args w = (Inr (failure ''Commit error: '' ?e), w)"
    if "simpleGit E (REPO_PATH E) = None" and "validateCommitMessage (args ''message'') = Inr m"
    using that assms(1) am
    by (simp add: executeTool_def try_catch_def commit_changes_def and_then_assoc and_then_sync
        handle_created files_map_def)
  from first second show ?thesis by blast
qed

theorem commit_file_list_amended_witness:
  "executeTool resolving ''commit_changes''
      (bag [(''message'', JStr ''m''), (''files'', JArr [JStr ''a.txt'', JNum False ''123''])]) fresh =
     (Inr (failure ''Commit error: '' (JsError ''File paths must be strings'')), fresh)
   \<and> executeTool resolving ''commit_changes''
      (bag [(''message'', JStr ''m''), (''files'', JArr [JStr ''../x''])]) fresh =
     (Inr (failure ''Commit error: '' (JsError ''Invalid file path: ../x'')), fresh)"
proof -
  have g: "simpleGit resolving (REPO_PATH resolving) = None"
    by (simp add: resolving_def)
  have f1: "bag [(''message'', JStr ''m''), (''files'', JArr [JStr ''a.txt'', JNum False ''123''])] ''files'' =
      JArr ([JStr ''a.txt''] @ JNum False ''123'' # [])"
    and f2: "bag [(''message'', JStr ''m''), (''files'', JArr [JStr ''../x''])] ''files'' =
      JArr ([] @ JStr ''../x'' # [])"
    by (simp_all add: bag_def)
  have pre1: "\<forall>f\<in>set [JStr ''a.txt'']. \<not> offending f"
    and pre2: "\<forall>f\<in>set ([] :: jsval list). \<not> offending f"
    by (simp_all add: invalid_file_path_def backslash_def)
  have x1: "offending (JNum False ''123'')" and x2: "offending (JStr ''../x'')"
    by (simp_all add: invalid_file_path_def)
  have m1: "validateCommitMessage
      (bag [(''message'', JStr ''m''), (''files'', JArr [JStr ''a.txt'', JNum False ''123''])] ''message'') =
      Inr ''m''"
    and m2: "validateCommitMessage
      (bag [(''message'', JStr ''m''), (''files'', JArr [JStr ''../x''])] ''message'') = Inr ''m''"
    by (simp_all add: bag_def validateCommitMessage_def has_char_def dangerous_def backslash_def)
  have r1: "executeTool resolving ''commit_changes''
      (bag [(''message'', JStr ''m''), (''files'', JArr [JStr ''a.txt'', JNum False ''123''])]) fresh =
     (Inr (failure ''Commit error: '' (JsError ''File paths must be strings'')), fresh)"
    using commit_file_list_amended
      [where pre = "[JStr ''a.txt'']" and x = "JNum False ''123''" and post = "[]"
        and args = "bag [(''message'', JStr ''m''),
                         (''files'', JArr [JStr ''a.txt'', JNum False ''123''])]"
        and E = resolving and w = fresh and m = "''m''", OF f1 pre1 x1] g m1
    by simp
  have r2: "executeTool resolving ''commit_changes''
      (bag [(''message'', JStr ''m''), (''files'', JArr [JStr ''../x''])]) fresh =
     (Inr (failure ''Commit error: '' (JsError ''Invalid file path: ../x'')), fresh)"
    using commit_file_list_amended
      [where pre = "[]" and x = "JStr ''../x''" and post = "[]"
        and args = "bag [(''message'', JStr ''m''), (''files'', JArr [JStr ''../x''])]"
        and E = resolving and w = fresh and m = "''m''", OF f2 pre2 x2] g m2
    by simp
  from r1 r2 show ?thesis by blast
qed

text \<open>
  The claim as written fails on \<open>files: ["a.txt", 123]\<close>: the failure text does not name the
  entry \<open>123\<close>.
\<close>

theorem commit_file_list_counterexample:
  "fst (executeTool resolving ''commit_changes''
      (bag [(''message'', JStr ''m''), (''files'', JArr [JStr ''a.txt'', JNum False ''123''])]) fresh) =
     Inr \<lparr>content = [\<lparr>c_type = ''text'', c_text = ''Commit error: File paths must be strings''\<rparr>],
          isError = True\<rparr>
   \<and> js_String (JNum False ''123'') = Some ''123''
   \<and> \<not> js_includes ''Commit error: File paths must be strings'' ''123''"
  by (simp add: executeTool_def try_catch_def commit_changes_def and_then_def sync_def
      createGitInstance_def resolving_def fresh_def bag_def validateCommitMessage_def
      has_char_def dangerous_def backslash_def files_map_def check_file_def failure_def)

text \<open>
  Claim C10. A \<open>commit_changes\<close> invocation with \<open>files: []\<close> has the same outcome (result,
  repository state and primitives invoked) as the invocation without \<open>files\<close>, whatever
  the other arguments and the engine. With the handle created and a valid message, the first
  primitive is \<open>add('.')\<close>, and when it resolves the next is \<open>commit\<close> of the validated
  message.
\<close>

theorem commit_empty_files:
  "executeTool E ''commit_changes'' (args(''files'' := JArr [])) w =
     executeTool E ''commit_changes'' (args(''files'' := JUndefined)) w
   \<and> (simpleGit E (REPO_PATH E) = None \<and> validateCommitMessage (args ''message'') = Inr m \<longrightarrow>
        calls (snd (executeTool E ''commit_changes'' (args(''files'' := JArr [])) w)) =
          calls w @ Add (Path ''.'') #
            (case fst (run E (Add (Path ''.'')) (repo w)) of Inl e \<Rightarrow> [] | Inr out \<Rightarrow> [Commit m]))"
proof -
  have same: "commit_changes E (args(''files'' := JArr [])) = commit_changes E (args(''files'' := JUndefined))"
    by (simp add: commit_changes_def)
  have stage: "calls (snd (executeTool E ''commit_changes'' (args(''files'' := JArr [])) w)) =
          calls w @ Add (Path ''.'') #
            (case fst (run E (Add (Path ''.'')) (repo w)) of Inl e \<Rightarrow> [] | Inr out \<Rightarrow> [Commit m])"
    if "simpleGit E (REPO_PATH E) = None" and "validateCommitMessage (args ''message'') = Inr m"
    using that
    by (auto simp: executeTool_def try_catch_def commit_changes_def and_then_def sync_def
        await_def handle_created split: prod.splits sum.splits)
  from same stage show ?thesis
    by (simp add: executeTool_def)
qed

theorem commit_empty_files_witness:
  "executeTool resolving ''commit_changes'' ((bag [(''message'', JStr ''m'')])(''files'' := JArr [])) fresh =
     executeTool resolving ''commit_changes'' ((bag [(''message'', JStr ''m'')])(''files'' := JUndefined)) fresh
   \<and> calls (snd (executeTool resolving ''commit_changes''
        ((bag [(''message'', JStr ''m'')])(''files'' := JArr [])) fresh)) =
     [Add (Path ''.''), Commit ''m'']"
proof -
  have g: "simpleGit resolving (REPO_PATH resolving) = None"
    by (simp add: resolving_def)
  have m: "validateCommitMessage (bag [(''message'', JStr ''m'')] ''message'') = Inr ''m''"
    by (simp add: bag_def validateCommitMessage_def has_char_def dangerous_def backslash_def)
  have r: "fst (run resolving (Add (Path ''.'')) (repo fresh)) = Inr ''abc123''"
    by (simp add: resolving_def)
  note inst = commit_empty_files [of resolving "bag [(''message'', JStr ''m'')]" fresh "''m''"]
  from inst have same: "executeTool resolving ''commit_changes''
        ((bag [(''message'', JStr ''m'')])(''files'' := JArr [])) fresh =
      executeTool resolving ''commit_changes''
        ((bag [(''message'', JStr ''m'')])(''files'' := JUndefined)) fresh"
    by (rule conjunct1)
  from inst g m have "calls (snd (executeTool resolving ''commit_changes''
        ((bag [(''message'', JStr ''m'')])(''files'' := JArr [])) fresh)) =
      calls fresh @ Add (Path ''.'') #
        (case fst (run resolving (Add (Path ''.'')) (repo fresh)) of
           Inl e \<Rightarrow> [] | Inr out \<Rightarrow> [Commit ''m''])"
    by blast
  with r have "calls (snd (executeTool resolving ''commit_changes''
        ((bag [(''message'', JStr ''m'')])(''files'' := JArr [])) fresh)) =
      [Add (Path ''.''), Commit ''m'']"
    by (simp add: fresh_def)
  with same show ?thesis by blast
qed

end
